theory Spec2Isabelle
  imports Main
begin

section \<open>Python values\<close>

text \<open>
  The payloads that travel through the adapter are untyped Python values (\<open>Any\<close>).
  Only the shapes that occur in \<open>tool_adapter.py\<close> are needed: \<open>None\<close>, strings,
  integers, the float literal \<open>0.95\<close> (kept as the decimal \<open>95 \<times> 10\<^sup>-\<^sup>2\<close>, \<open>PDec 95 2\<close>),
  lists and dict literals (association lists, in the order the literal is written).
\<close>

datatype pyval =
    PNone
  | PStr string
  | PInt int
  | PDec int nat
  | PList "pyval list"
  | PDict "(string \<times> pyval) list"

text \<open>\<open>d.get(k, default)\<close> on a dict.\<close>

definition dict_get :: "('k \<rightharpoonup> 'v) \<Rightarrow> 'k \<Rightarrow> 'v \<Rightarrow> 'v" where
  "dict_get d k dflt = (case d k of None \<Rightarrow> dflt | Some v \<Rightarrow> v)"

section \<open>Exceptions\<close>

text \<open>
  The exceptions that can arise while \<open>execute_tool\<close> runs. \<open>CancelledError\<close> derives
  from \<open>BaseException\<close>, not from \<open>Exception\<close>; the others are subclasses of
  \<open>Exception\<close>. \<open>TypeError\<close>, \<open>ValueError\<close>, \<open>OverflowError\<close> and
  \<open>NotImplementedError\<close> carry their message, \<open>KeyError\<close> the missing key.
\<close>

datatype exn =
    TimeoutError
  | NotImplementedError string
  | KeyError string
  | TypeError string
  | ValueError string
  | OverflowError string
  | CancelledError

text \<open>\<open>isinstance(e, Exception)\<close>, the test of an \<open>except Exception\<close> clause.\<close>

fun is_Exception :: "exn \<Rightarrow> bool" where
  "is_Exception CancelledError = False"
| "is_Exception ex = True"

text \<open>The decimal numeral of an integer.\<close>

definition digit_char :: "nat \<Rightarrow> char" where
  "digit_char d = ''0123456789abcdef'' ! d"

function str_nat :: "nat \<Rightarrow> string" where
  "str_nat n = (if n < 10 then [digit_char n] else str_nat (n div 10) @ [digit_char (n mod 10)])"
  by pat_completeness auto
termination
  by (relation "measure (\<lambda>n. n)") auto

declare str_nat.simps [simp del]

definition str_int :: "int \<Rightarrow> string" where
  "str_int i = (if i < 0 then ''-'' @ str_nat (nat (- i)) else str_nat (nat i))"

text \<open>
  \<open>str(n)\<close> for an integer, as an f-string prints it. The interpreter refuses to convert
  an integer of more than \<open>sys.get_int_max_str_digits()\<close> decimal digits (4300 unless
  reconfigured; the sign does not count) and raises \<open>ValueError\<close>.
\<close>

definition int_max_str_digits :: nat where
  "int_max_str_digits = 4300"

definition format_int :: "int \<Rightarrow> exn + string" where
  "format_int i =
     (if int_max_str_digits < length (str_nat (nat \<bar>i\<bar>))
      then Inl (ValueError (''Exceeds the limit (4300 digits) for integer string conversion; ''
                  @ ''use sys.set_int_max_str_digits() to increase the limit''))
      else Inr (str_int i))"

text \<open>
  \<open>repr(s)\<close> for a string, which is what \<open>str(KeyError(s))\<close> prints. Characters are
  bytes here; bytes from \<open>0x80\<close> on (the UTF-8 encoding of printable non-ASCII text) are
  left as they are.
\<close>

definition repr_char :: "char \<Rightarrow> char \<Rightarrow> string" where
  "repr_char quote c =
     (if c = CHR 0x5C then [CHR 0x5C, CHR 0x5C]
      else if c = quote then [CHR 0x5C, quote]
      else if c = CHR 0x09 then [CHR 0x5C, CHR ''t'']
      else if c = CHR 0x0A then [CHR 0x5C, CHR ''n'']
      else if c = CHR 0x0D then [CHR 0x5C, CHR ''r'']
      else if (of_char c :: nat) < 32 \<or> (of_char c :: nat) = 127
        then [CHR 0x5C, CHR ''x'', digit_char ((of_char c :: nat) div 16), digit_char ((of_char c :: nat) mod 16)]
      else [c])"

definition repr_str :: "string \<Rightarrow> string" where
  "repr_str s =
     (let quote = (if CHR 0x27 \<in> set s \<and> CHR 0x22 \<notin> set s then CHR 0x22 else CHR 0x27)
      in [quote] @ concat (map (repr_char quote) s) @ [quote])"

text \<open>\<open>str(e)\<close>.\<close>

fun exn_str :: "exn \<Rightarrow> string" where
  "exn_str TimeoutError = []"
| "exn_str (NotImplementedError msg) = msg"
| "exn_str (KeyError k) = repr_str k"
| "exn_str (TypeError msg) = msg"
| "exn_str (ValueError msg) = msg"
| "exn_str (OverflowError msg) = msg"
| "exn_str CancelledError = []"

section \<open>Data model\<close>

datatype ToolExecutionStatus = SUCCESS | FAILURE | TIMEOUT | VALIDATION_ERROR | PERMISSION_DENIED

text \<open>\<open>status.value\<close>, the label the execution counter is tagged with.\<close>

fun status_value :: "ToolExecutionStatus \<Rightarrow> string" where
  "status_value SUCCESS = ''success''"
| "status_value FAILURE = ''failure''"
| "status_value TIMEOUT = ''timeout''"
| "status_value VALIDATION_ERROR = ''validation_error''"
| "status_value PERMISSION_DENIED = ''permission_denied''"

record ToolContext =
  tenant_id :: string
  session_id :: string
  user_id :: "string option"
  agent_id :: "string option"
  permission_level :: string
  max_execution_time :: int
  context_metadata :: "(string \<times> pyval) list"

record ToolResult =
  status :: ToolExecutionStatus
  data :: "pyval option"
  error :: "string option"
  execution_time_ms :: int
  token_usage :: "(string \<times> int) list"
  metadata :: "(string \<times> pyval) list"

text \<open>
  The registry is what \<open>yaml.safe_load\<close> read, and nothing checks its shape. The value
  under \<open>required_params\<close> is a list of parameter names, or a yaml \<open>null\<close> (the key written
  with no value), which \<open>safe_load\<close> gives as \<open>None\<close>. An entry itself is taken to be a
  mapping, and the values under its other keys to have the types the adapter expects.
\<close>

datatype params_yaml = Names "string list" | Null

text \<open>
  One entry of the tool registry, a yaml mapping, as the adapter reads it: every key is
  read with \<open>tool_spec.get(key, default)\<close>, so each key may be absent (\<open>None\<close> here). The
  registry is a dict from tool name to entry; it is kept as an association list because
  \<open>get_available_tools\<close> walks it in insertion order. Look-up is \<open>map_of\<close>. A dict
  holds each key once; no result below needs that.
\<close>

record tool_spec =
  tool_type :: "string option"
  required_params :: "params_yaml option"
  required_permission :: "string option"
  description :: "string option"
  parameters :: "pyval option"

type_synonym registry = "(string \<times> tool_spec) list"

type_synonym inputs = "string \<rightharpoonup> pyval"

text \<open>\<open>tool_spec.get(key, default)\<close> on a key that may be absent.\<close>

definition spec_get :: "'a option \<Rightarrow> 'a \<Rightarrow> 'a" where
  "spec_get field dflt = (case field of None \<Rightarrow> dflt | Some v \<Rightarrow> v)"

section \<open>Validation and permissions\<close>

text \<open>
  The \<open>for param in required_params\<close> loop of \<open>validate_tool_input\<close>, over a list of
  names.
\<close>

fun validate_params :: "string list \<Rightarrow> inputs \<Rightarrow> bool \<times> string option" where
  "validate_params [] inputs = (True, None)"
| "validate_params (param # rest) inputs =
     (if inputs param = None then (False, Some (''Missing required parameter: '' @ param))
      else validate_params rest inputs)"

text \<open>
  \<open>validate_tool_input\<close>. Iterating over \<open>None\<close> raises \<open>TypeError\<close>; the method has no
  handler, so the exception leaves it.
\<close>

definition validate_tool_input :: "registry \<Rightarrow> string \<Rightarrow> inputs \<Rightarrow> exn + (bool \<times> string option)" where
  "validate_tool_input tool_registry tool_name inputs =
     (case map_of tool_registry tool_name of
        None \<Rightarrow> Inr (False, Some (''Tool '' @ [CHR 0x27] @ tool_name @ [CHR 0x27] @ '' not found in registry''))
      | Some spec \<Rightarrow>
          (case spec_get (required_params spec) (Names []) of
             Names params \<Rightarrow> Inr (validate_params params inputs)
           | Null \<Rightarrow> Inl (TypeError ([CHR 0x27] @ ''NoneType'' @ [CHR 0x27] @ '' object is not iterable''))))"

definition permission_levels :: "string \<rightharpoonup> int" where
  "permission_levels = [''guest'' \<mapsto> 0, ''user'' \<mapsto> 1, ''admin'' \<mapsto> 2]"

definition check_permissions :: "registry \<Rightarrow> string \<Rightarrow> ToolContext \<Rightarrow> bool" where
  "check_permissions tool_registry tool_name context =
     (case map_of tool_registry tool_name of
        None \<Rightarrow> False
      | Some spec \<Rightarrow>
          (let required = spec_get (required_permission spec) ''user''
           in dict_get permission_levels (permission_level context) 0
                \<ge> dict_get permission_levels required 1))"

section \<open>Effects: the event log and the surroundings\<close>

text \<open>
  What a call does besides returning is kept as a log, oldest event first: the metric
  emissions (the in-flight gauge \<open>active_tools\<close>, the counter \<open>tool_execution_counter\<close>,
  the histogram \<open>tool_execution_duration\<close>, each with its labels) and the calls that
  \<open>execute_tool\<close> makes on the adapter. \<open>Observe\<close> carries \<open>execution_time_ms\<close>; the
  histogram receives that number divided by \<open>1000.0\<close>. \<open>Call_execute_tool_impl\<close> is the
  evaluation of \<open>self._execute_tool_impl(tool_name, inputs, context)\<close>, which creates the
  coroutine handed to \<open>asyncio.wait_for\<close>.
\<close>

datatype event =
    Gauge_inc string string
  | Gauge_dec string string
  | Counter_inc string string string
  | Observe string string int
  | Call_validate_tool_input string
  | Call_check_permissions string
  | Call_execute_tool_impl string

text \<open>
  What the code meets in its surroundings during one call: \<open>elapsed_ms\<close> is the value of
  \<open>int((time.time() - start_time) * 1000)\<close> at the one place where the call builds its
  result; \<open>deadline_first\<close> says whether, for a coroutine that suspends, the deadline
  of \<open>asyncio.wait_for\<close> passes before the coroutine finishes; \<open>cancelled\<close> says whether
  the one \<open>await\<close> of \<open>execute_tool\<close> ends with the cancellation of the task that runs
  it, a \<open>CancelledError\<close> raised at the \<open>await\<close>.
\<close>

record env =
  elapsed_ms :: int
  deadline_first :: bool
  cancelled :: bool

text \<open>
  A computation takes the log so far and gives a value or a raised exception, and the
  extended log.
\<close>

type_synonym 'a py = "event list \<Rightarrow> (exn + 'a) \<times> event list"

definition return_py :: "'a \<Rightarrow> 'a py" where
  "return_py x = (\<lambda>log. (Inr x, log))"

definition raise_py :: "exn \<Rightarrow> 'a py" where
  "raise_py e = (\<lambda>log. (Inl e, log))"

definition bind_py :: "'a py \<Rightarrow> ('a \<Rightarrow> 'b py) \<Rightarrow> 'b py" where
  "bind_py m f = (\<lambda>log. case m log of (Inl e, log') \<Rightarrow> (Inl e, log') | (Inr x, log') \<Rightarrow> f x log')"

definition emit :: "event \<Rightarrow> unit py" where
  "emit ev = (\<lambda>log. (Inr (), log @ [ev]))"

text \<open>An expression that logs nothing: its value, or the exception it raises.\<close>

definition eval_py :: "exn + 'a \<Rightarrow> 'a py" where
  "eval_py r = (case r of Inl ex \<Rightarrow> raise_py ex | Inr v \<Rightarrow> return_py v)"

text \<open>\<open>try: m except <clauses>\<close>: the handler decides, per exception, to handle or re-raise.\<close>

definition try_except :: "'a py \<Rightarrow> (exn \<Rightarrow> 'a py) \<Rightarrow> 'a py" where
  "try_except m handler = (\<lambda>log. case m log of (Inl e, log') \<Rightarrow> handler e log' | (Inr x, log') \<Rightarrow> (Inr x, log'))"

text \<open>
  \<open>try: m finally: fin\<close>: \<open>fin\<close> runs however \<open>m\<close> ends (value, \<open>return\<close> or exception);
  the outcome of \<open>m\<close> stands unless \<open>fin\<close> itself raises.
\<close>

definition try_finally :: "'a py \<Rightarrow> unit py \<Rightarrow> 'a py" where
  "try_finally m fin =
     (\<lambda>log. case m log of (r, log') \<Rightarrow>
        (case fin log' of (Inl e, log'') \<Rightarrow> (Inl e, log'') | (Inr u, log'') \<Rightarrow> (r, log'')))"

text \<open>
  How a block ends when it does not raise: by a \<open>return\<close> statement, or by reaching its
  end with \<open>result\<close> assigned.
\<close>

datatype 'a block_end = Return 'a | Fall_through 'a

section \<open>Dispatch\<close>

text \<open>
  A coroutine of \<open>_execute_tool_impl\<close>, by what its body does once it runs: it finishes
  in its first step (with a value or an exception), or it first awaits
  \<open>asyncio.sleep\<close> for the given number of milliseconds.
\<close>

datatype coroutine = Finishes "exn + pyval" | Sleeps nat "exn + pyval"

definition execute_tool_impl :: "registry \<Rightarrow> string \<Rightarrow> inputs \<Rightarrow> ToolContext \<Rightarrow> coroutine" where
  "execute_tool_impl tool_registry tool_name inputs context =
     (case map_of tool_registry tool_name of
        None \<Rightarrow> Finishes (Inl (KeyError tool_name))
      | Some spec \<Rightarrow>
          (let ty = spec_get (tool_type spec) ''unknown'' in
           if ty = ''web_search'' then
             Sleeps 500 (Inr (PDict
               [(''query'', dict_get inputs ''query'' (PStr [])),
                (''results'', PList [PDict
                   [(''title'', PStr ''Example Result''),
                    (''url'', PStr ''https://example.com''),
                    (''snippet'', PStr ''Sample snippet'')]])]))
           else if ty = ''asr'' then
             Sleeps 1000 (Inr (PDict
               [(''transcript'', PStr ''Sample transcribed text''),
                (''confidence'', PDec 95 2),
                (''language'', PStr ''en'')]))
           else if ty = ''tts'' then
             Sleeps 800 (Inr (PDict
               [(''audio_url'', PStr ''/tmp/generated_audio.wav''),
                (''duration_ms'', PInt 2000),
                (''format'', PStr ''wav'')]))
           else if ty = ''echo'' then
             Finishes (Inr (PDict
               [(''echo'', dict_get inputs ''message'' (PStr ''Hello from Primarch!''))]))
           else
             Finishes (Inl (NotImplementedError
               (''Tool type '' @ [CHR 0x27] @ ty @ [CHR 0x27] @ '' not implemented'')))))"

text \<open>
  The least integer that does not convert to a float: \<open>2\<^sup>1\<^sup>0\<^sup>2\<^sup>4 - 2\<^sup>9\<^sup>7\<^sup>0\<close>, half an ulp above
  the largest double. Adding it to the loop's clock raises \<open>OverflowError\<close>.
\<close>

definition float_limit :: int where
  "float_limit = 2 ^ 1024 - 2 ^ 970"

text \<open>
  \<open>await asyncio.wait_for(coro, timeout)\<close> for a coroutine that has not started and an
  integer timeout, in the order the library proceeds.
  \<^item> With \<open>timeout <= 0\<close> it wraps the coroutine in a task, finds it not done, cancels it
    before its first step, awaits the cancellation and raises \<open>TimeoutError\<close>: the body
    never runs.
  \<^item> Otherwise it first arms the timer with \<open>loop.call_later(timeout, ...)\<close>, which
    computes \<open>loop.time() + timeout\<close>; for a timeout from \<open>float_limit\<close> on this raises
    \<open>OverflowError\<close> before the coroutine is started.
  \<^item> Otherwise the task takes its first step before the timer can fire, so a body that
    does not suspend delivers its value or its exception; a body that suspends races the
    timer, and \<open>deadline_first\<close> is the outcome of that race.
  Wherever the library awaits, the caller's own cancellation arrives as
  \<open>CancelledError\<close>.
\<close>

definition wait_for :: "coroutine \<Rightarrow> int \<Rightarrow> env \<Rightarrow> pyval py" where
  "wait_for coro timeout e =
     (if timeout \<le> 0 then
        (if cancelled e then raise_py CancelledError else raise_py TimeoutError)
      else if float_limit \<le> timeout then
        raise_py (OverflowError ''int too large to convert to float'')
      else if cancelled e then raise_py CancelledError
      else (case coro of
              Finishes r \<Rightarrow> eval_py r
            | Sleeps ms r \<Rightarrow> if deadline_first e then raise_py TimeoutError else eval_py r))"

section \<open>The gateway\<close>

definition record_execution :: "string \<Rightarrow> ToolContext \<Rightarrow> ToolResult \<Rightarrow> unit py" where
  "record_execution tool_name context result =
     bind_py (emit (Counter_inc tool_name (status_value (status result)) (tenant_id context)))
       (\<lambda>u. emit (Observe tool_name (tenant_id context) (execution_time_ms result)))"

text \<open>
  \<open>execute_tool\<close>. The outer \<open>try\<close> has a \<open>finally\<close> clause and no handler: an exception
  of \<open>validate_tool_input\<close>, an exception raised inside a handler of the inner \<open>try\<close>
  (the f-string of the timeout message), and one that is no \<open>Exception\<close> all pass
  through the \<open>finally\<close> block and leave the method, before line 208 records anything.
\<close>

definition execute_tool :: "registry \<Rightarrow> string \<Rightarrow> inputs \<Rightarrow> ToolContext \<Rightarrow> env \<Rightarrow> ToolResult py" where
  "execute_tool tool_registry tool_name inputs context e =
     bind_py (emit (Gauge_inc tool_name (tenant_id context))) (\<lambda>u.
     bind_py
       (try_finally
          (bind_py (emit (Call_validate_tool_input tool_name)) (\<lambda>u.
           bind_py (eval_py (validate_tool_input tool_registry tool_name inputs)) (\<lambda>(is_valid, validation_error).
           if \<not> is_valid then
             (let result = \<lparr>status = VALIDATION_ERROR, data = None, error = validation_error,
                            execution_time_ms = elapsed_ms e, token_usage = [], metadata = []\<rparr>
              in bind_py (record_execution tool_name context result) (\<lambda>u. return_py (Return result)))
           else
           bind_py (emit (Call_check_permissions tool_name)) (\<lambda>u.
           if \<not> check_permissions tool_registry tool_name context then
             (let result = \<lparr>status = PERMISSION_DENIED, data = None,
                            error = Some (''Insufficient permissions for tool '' @ [CHR 0x27] @ tool_name @ [CHR 0x27]),
                            execution_time_ms = elapsed_ms e, token_usage = [], metadata = []\<rparr>
              in bind_py (record_execution tool_name context result) (\<lambda>u. return_py (Return result)))
           else
           bind_py
             (try_except
                (bind_py (emit (Call_execute_tool_impl tool_name)) (\<lambda>u.
                 bind_py (wait_for (execute_tool_impl tool_registry tool_name inputs context)
                            (max_execution_time context) e) (\<lambda>d.
                 return_py \<lparr>status = SUCCESS, data = Some d, error = None,
                            execution_time_ms = elapsed_ms e, token_usage = [],
                            metadata = [(''tool_name'', PStr tool_name),
                                        (''session_id'', PStr (session_id context))]\<rparr>)))
                (\<lambda>ex.
                   if ex = TimeoutError then
                     bind_py (eval_py (format_int (max_execution_time context))) (\<lambda>budget.
                     return_py \<lparr>status = TIMEOUT, data = None,
                                error = Some (''Tool execution timed out after '' @ budget @ ''s''),
                                execution_time_ms = elapsed_ms e, token_usage = [], metadata = []\<rparr>)
                   else if is_Exception ex then
                     return_py \<lparr>status = FAILURE, data = None, error = Some (exn_str ex),
                                execution_time_ms = elapsed_ms e, token_usage = [], metadata = []\<rparr>
                   else raise_py ex))
             (\<lambda>result. return_py (Fall_through result))))))
          (emit (Gauge_dec tool_name (tenant_id context))))
       (\<lambda>ended. case ended of
            Return result \<Rightarrow> return_py result
          | Fall_through result \<Rightarrow>
              bind_py (record_execution tool_name context result) (\<lambda>u. return_py result)))"


section \<open>Catalog introspection\<close>

text \<open>
  The loop of \<open>get_available_tools\<close> over \<open>self.tool_registry.items()\<close>; each summary is
  the dict literal the source builds. \<open>all_tools\<close> is the whole registry, which
  \<open>check_permissions\<close> looks the name up in.
\<close>

fun available_loop :: "registry \<Rightarrow> registry \<Rightarrow> ToolContext \<Rightarrow> (string \<times> pyval) list list" where
  "available_loop all_tools [] context = []"
| "available_loop all_tools ((tool_name, spec) # rest) context =
     (if check_permissions all_tools tool_name context then
        [(''name'', PStr tool_name),
         (''description'', PStr (spec_get (description spec) [])),
         (''parameters'', spec_get (parameters spec) (PDict [])),
         (''type'', PStr (spec_get (tool_type spec) ''unknown''))]
        # available_loop all_tools rest context
      else available_loop all_tools rest context)"

definition get_available_tools :: "registry \<Rightarrow> ToolContext \<Rightarrow> (string \<times> pyval) list list" where
  "get_available_tools tool_registry context = available_loop tool_registry tool_registry context"

section \<open>Properties of the event log\<close>

fun is_gauge_inc :: "event \<Rightarrow> bool" where
  "is_gauge_inc (Gauge_inc n t) = True"
| "is_gauge_inc ev = False"

fun is_gauge_dec :: "event \<Rightarrow> bool" where
  "is_gauge_dec (Gauge_dec n t) = True"
| "is_gauge_dec ev = False"

fun is_counter_inc :: "event \<Rightarrow> bool" where
  "is_counter_inc (Counter_inc n s t) = True"
| "is_counter_inc ev = False"

fun is_observe :: "event \<Rightarrow> bool" where
  "is_observe (Observe n t ms) = True"
| "is_observe ev = False"

fun is_impl_call :: "event \<Rightarrow> bool" where
  "is_impl_call (Call_execute_tool_impl n) = True"
| "is_impl_call ev = False"

definition is_recording :: "event \<Rightarrow> bool" where
  "is_recording ev = (is_counter_inc ev \<or> is_observe ev)"

definition before_decrement :: "event list \<Rightarrow> event list" where
  "before_decrement evs = takeWhile (\<lambda>ev. \<not> is_gauge_dec ev) evs"

definition from_decrement :: "event list \<Rightarrow> event list" where
  "from_decrement evs = dropWhile (\<lambda>ev. \<not> is_gauge_dec ev) evs"

definition decrement_follows_recording :: "event list \<Rightarrow> bool" where
  "decrement_follows_recording evs =
     (filter is_recording (before_decrement evs) \<noteq> [] \<and> filter is_recording (from_decrement evs) = [])"

definition decrement_precedes_recording :: "event list \<Rightarrow> bool" where
  "decrement_precedes_recording evs =
     (filter is_recording (before_decrement evs) = [] \<and> filter is_recording (from_decrement evs) \<noteq> [])"

text \<open>
  The rank of a tier as the specification words it (section 4.3): an unrecognized tier
  string, on either side, has rank 1.
\<close>

definition tier_rank_spec :: "string \<Rightarrow> int" where
  "tier_rank_spec tier = dict_get permission_levels tier 1"

definition recognized_tiers :: "string set" where
  "recognized_tiers = {''guest'', ''user'', ''admin''}"

definition recognized_types :: "string set" where
  "recognized_types = {''web_search'', ''asr'', ''tts'', ''echo''}"

section \<open>The scenarios of the specification\<close>

definition echo_spec :: tool_spec where
  "echo_spec = \<lparr>tool_type = Some ''echo'', required_params = Some (Names []),
      required_permission = Some ''guest'', description = None, parameters = None\<rparr>"

definition search_spec :: tool_spec where
  "search_spec = \<lparr>tool_type = None, required_params = Some (Names [''query'']),
      required_permission = Some ''user'', description = None, parameters = None\<rparr>"

definition purge_spec :: tool_spec where
  "purge_spec = \<lparr>tool_type = Some ''purge'', required_params = Some (Names [''target'']),
      required_permission = Some ''admin'', description = None, parameters = None\<rparr>"

definition probe_spec :: tool_spec where
  "probe_spec = \<lparr>tool_type = Some ''probe'', required_params = None,
      required_permission = Some ''root'', description = None, parameters = None\<rparr>"

text \<open>An entry whose \<open>required_params\<close> key is written with no value.\<close>

definition blank_spec :: tool_spec where
  "blank_spec = \<lparr>tool_type = Some ''echo'', required_params = Some Null,
      required_permission = Some ''guest'', description = None, parameters = None\<rparr>"

definition echo_registry :: registry where
  "echo_registry = [(''echo'', echo_spec)]"

definition search_registry :: registry where
  "search_registry = [(''search'', search_spec)]"

definition admin_registry :: registry where
  "admin_registry = [(''purge'', purge_spec)]"

definition root_registry :: registry where
  "root_registry = [(''probe'', probe_spec)]"

definition blank_registry :: registry where
  "blank_registry = [(''blank'', blank_spec)]"

definition mixed_registry :: registry where
  "mixed_registry = [(''echo'', echo_spec), (''search'', search_spec), (''purge'', purge_spec)]"

text \<open>
  \<open>ToolContext(tenant_id, session_id, permission_level=tier)\<close>: the other fields take the
  defaults of the dataclass, \<open>max_execution_time\<close> being 30.
\<close>

definition scenario_context :: "string \<Rightarrow> ToolContext" where
  "scenario_context tier = \<lparr>tenant_id = ''acme'', session_id = ''s1'', user_id = None, agent_id = None,
      permission_level = tier, max_execution_time = 30, context_metadata = []\<rparr>"

definition scenario_env :: env where
  "scenario_env = \<lparr>elapsed_ms = 3, deadline_first = False, cancelled = False\<rparr>"

section \<open>Evaluation and rank lemmas\<close>

lemmas py_defs = bind_py_def emit_def try_finally_def try_except_def return_py_def raise_py_def
  eval_py_def record_execution_def

lemmas scenario_defs = echo_registry_def search_registry_def admin_registry_def
  echo_spec_def search_spec_def purge_spec_def scenario_context_def scenario_env_def

lemmas eval_defs = validate_tool_input_def check_permissions_def permission_levels_def dict_get_def
  spec_get_def execute_tool_impl_def wait_for_def raise_py_def return_py_def eval_py_def float_limit_def

lemma permission_levels_None: "permission_levels t = None \<longleftrightarrow> t \<notin> recognized_tiers"
  by (simp add: permission_levels_def recognized_tiers_def)

lemma rank_unrecognized: "t \<notin> recognized_tiers \<Longrightarrow> dict_get permission_levels t d = d"
  using permission_levels_None [of t] by (simp add: dict_get_def)

lemma rank_le_zero: "dict_get permission_levels t 1 \<le> 0 \<longleftrightarrow> t = ''guest''"
  by (simp add: dict_get_def permission_levels_def)

lemma rank_ge_one: "1 \<le> dict_get permission_levels t 0 \<longleftrightarrow> t = ''user'' \<or> t = ''admin''"
  by (simp add: dict_get_def permission_levels_def)

section \<open>The paths through \<open>execute_tool\<close>\<close>

lemma wait_for_outcome: "wait_for c t e log = (fst (wait_for c t e []), log)"
  by (simp add: wait_for_def raise_py_def return_py_def eval_py_def split: coroutine.splits sum.splits)




lemma execute_tool_raised:
  assumes "validate_tool_input reg n inp = Inl ex"
  shows "execute_tool reg n inp ctx e log =
       (Inl ex, log @ [Gauge_inc n (tenant_id ctx), Call_validate_tool_input n,
                       Gauge_dec n (tenant_id ctx)])"
  using assms by (simp add: execute_tool_def py_defs Let_def)

lemma execute_tool_invalid:
  assumes "validate_tool_input reg n inp = Inr (False, verr)"
  shows "execute_tool reg n inp ctx e log =
       (Inr \<lparr>status = VALIDATION_ERROR, data = None, error = verr,
              execution_time_ms = elapsed_ms e, token_usage = [], metadata = []\<rparr>,
        log @ [Gauge_inc n (tenant_id ctx), Call_validate_tool_input n,
               Counter_inc n ''validation_error'' (tenant_id ctx),
               Observe n (tenant_id ctx) (elapsed_ms e),
               Gauge_dec n (tenant_id ctx)])"
  using assms by (simp add: execute_tool_def py_defs Let_def)

lemma execute_tool_denied:
  assumes "validate_tool_input reg n inp = Inr (True, verr)" and "\<not> check_permissions reg n ctx"
  shows "execute_tool reg n inp ctx e log =
       (Inr \<lparr>status = PERMISSION_DENIED, data = None,
              error = Some (''Insufficient permissions for tool '' @ [CHR 0x27] @ n @ [CHR 0x27]),
              execution_time_ms = elapsed_ms e, token_usage = [], metadata = []\<rparr>,
        log @ [Gauge_inc n (tenant_id ctx), Call_validate_tool_input n, Call_check_permissions n,
               Counter_inc n ''permission_denied'' (tenant_id ctx),
               Observe n (tenant_id ctx) (elapsed_ms e),
               Gauge_dec n (tenant_id ctx)])"
  using assms by (simp add: execute_tool_def py_defs Let_def)

lemma execute_tool_success:
  assumes "validate_tool_input reg n inp = Inr (True, verr)" and "check_permissions reg n ctx"
    and "fst (wait_for (execute_tool_impl reg n inp ctx) (max_execution_time ctx) e []) = Inr d"
  shows "execute_tool reg n inp ctx e log =
       (Inr \<lparr>status = SUCCESS, data = Some d, error = None,
              execution_time_ms = elapsed_ms e, token_usage = [],
              metadata = [(''tool_name'', PStr n), (''session_id'', PStr (session_id ctx))]\<rparr>,
        log @ [Gauge_inc n (tenant_id ctx), Call_validate_tool_input n, Call_check_permissions n,
               Call_execute_tool_impl n, Gauge_dec n (tenant_id ctx),
               Counter_inc n ''success'' (tenant_id ctx),
               Observe n (tenant_id ctx) (elapsed_ms e)])"
  using assms
    wait_for_outcome [of "execute_tool_impl reg n inp ctx" "max_execution_time ctx" e
      "log @ [Gauge_inc n (tenant_id ctx), Call_validate_tool_input n, Call_check_permissions n,
              Call_execute_tool_impl n]"]
  by (simp add: execute_tool_def py_defs Let_def)

lemma execute_tool_timeout:
  assumes "validate_tool_input reg n inp = Inr (True, verr)" and "check_permissions reg n ctx"
    and "fst (wait_for (execute_tool_impl reg n inp ctx) (max_execution_time ctx) e []) = Inl TimeoutError"
    and "format_int (max_execution_time ctx) = Inr budget"
  shows "execute_tool reg n inp ctx e log =
       (Inr \<lparr>status = TIMEOUT, data = None,
              error = Some (''Tool execution timed out after '' @ budget @ ''s''),
              execution_time_ms = elapsed_ms e, token_usage = [], metadata = []\<rparr>,
        log @ [Gauge_inc n (tenant_id ctx), Call_validate_tool_input n, Call_check_permissions n,
               Call_execute_tool_impl n, Gauge_dec n (tenant_id ctx),
               Counter_inc n ''timeout'' (tenant_id ctx),
               Observe n (tenant_id ctx) (elapsed_ms e)])"
  using assms
    wait_for_outcome [of "execute_tool_impl reg n inp ctx" "max_execution_time ctx" e
      "log @ [Gauge_inc n (tenant_id ctx), Call_validate_tool_input n, Call_check_permissions n,
              Call_execute_tool_impl n]"]
  by (simp add: execute_tool_def py_defs Let_def)

lemma execute_tool_timeout_raised:
  assumes "validate_tool_input reg n inp = Inr (True, verr)" and "check_permissions reg n ctx"
    and "fst (wait_for (execute_tool_impl reg n inp ctx) (max_execution_time ctx) e []) = Inl TimeoutError"
    and "format_int (max_execution_time ctx) = Inl ex"
  shows "execute_tool reg n inp ctx e log =
       (Inl ex,
        log @ [Gauge_inc n (tenant_id ctx), Call_validate_tool_input n, Call_check_permissions n,
               Call_execute_tool_impl n, Gauge_dec n (tenant_id ctx)])"
  using assms
    wait_for_outcome [of "execute_tool_impl reg n inp ctx" "max_execution_time ctx" e
      "log @ [Gauge_inc n (tenant_id ctx), Call_validate_tool_input n, Call_check_permissions n,
              Call_execute_tool_impl n]"]
  by (simp add: execute_tool_def py_defs Let_def)

lemma execute_tool_failure:
  assumes "validate_tool_input reg n inp = Inr (True, verr)" and "check_permissions reg n ctx"
    and "fst (wait_for (execute_tool_impl reg n inp ctx) (max_execution_time ctx) e []) = Inl ex"
    and "ex \<noteq> TimeoutError" and "is_Exception ex"
  shows "execute_tool reg n inp ctx e log =
       (Inr \<lparr>status = FAILURE, data = None, error = Some (exn_str ex),
              execution_time_ms = elapsed_ms e, token_usage = [], metadata = []\<rparr>,
        log @ [Gauge_inc n (tenant_id ctx), Call_validate_tool_input n, Call_check_permissions n,
               Call_execute_tool_impl n, Gauge_dec n (tenant_id ctx),
               Counter_inc n ''failure'' (tenant_id ctx),
               Observe n (tenant_id ctx) (elapsed_ms e)])"
  using assms
    wait_for_outcome [of "execute_tool_impl reg n inp ctx" "max_execution_time ctx" e
      "log @ [Gauge_inc n (tenant_id ctx), Call_validate_tool_input n, Call_check_permissions n,
              Call_execute_tool_impl n]"]
  by (simp add: execute_tool_def py_defs Let_def)

lemma execute_tool_escaped:
  assumes "validate_tool_input reg n inp = Inr (True, verr)" and "check_permissions reg n ctx"
    and "fst (wait_for (execute_tool_impl reg n inp ctx) (max_execution_time ctx) e []) = Inl ex"
    and "ex \<noteq> TimeoutError" and "\<not> is_Exception ex"
  shows "execute_tool reg n inp ctx e log =
       (Inl ex,
        log @ [Gauge_inc n (tenant_id ctx), Call_validate_tool_input n, Call_check_permissions n,
               Call_execute_tool_impl n, Gauge_dec n (tenant_id ctx)])"
  using assms
    wait_for_outcome [of "execute_tool_impl reg n inp ctx" "max_execution_time ctx" e
      "log @ [Gauge_inc n (tenant_id ctx), Call_validate_tool_input n, Call_check_permissions n,
              Call_execute_tool_impl n]"]
  by (simp add: execute_tool_def py_defs Let_def)

text \<open>
  Every call takes exactly one of eight paths, told apart by what validation gives, the
  permission verdict, what \<open>asyncio.wait_for\<close> delivers and whether the budget can be
  printed.
\<close>

lemma execute_tool_cases
  [case_names raised invalid denied success timeout timeout_raised failure escaped]:
  obtains ex where "validate_tool_input reg n inp = Inl ex"
  | verr where "validate_tool_input reg n inp = Inr (False, verr)"
  | verr where "validate_tool_input reg n inp = Inr (True, verr)" "\<not> check_permissions reg n ctx"
  | verr d where "validate_tool_input reg n inp = Inr (True, verr)" "check_permissions reg n ctx"
      "fst (wait_for (execute_tool_impl reg n inp ctx) (max_execution_time ctx) e []) = Inr d"
  | verr budget where "validate_tool_input reg n inp = Inr (True, verr)" "check_permissions reg n ctx"
      "fst (wait_for (execute_tool_impl reg n inp ctx) (max_execution_time ctx) e []) = Inl TimeoutError"
      "format_int (max_execution_time ctx) = Inr budget"
  | verr ex where "validate_tool_input reg n inp = Inr (True, verr)" "check_permissions reg n ctx"
      "fst (wait_for (execute_tool_impl reg n inp ctx) (max_execution_time ctx) e []) = Inl TimeoutError"
      "format_int (max_execution_time ctx) = Inl ex"
  | verr ex where "validate_tool_input reg n inp = Inr (True, verr)" "check_permissions reg n ctx"
      "fst (wait_for (execute_tool_impl reg n inp ctx) (max_execution_time ctx) e []) = Inl ex"
      "ex \<noteq> TimeoutError" "is_Exception ex"
  | verr ex where "validate_tool_input reg n inp = Inr (True, verr)" "check_permissions reg n ctx"
      "fst (wait_for (execute_tool_impl reg n inp ctx) (max_execution_time ctx) e []) = Inl ex"
      "ex \<noteq> TimeoutError" "\<not> is_Exception ex"
proof (cases "validate_tool_input reg n inp")
  case (Inl ex)
  with that(1) show ?thesis by simp
next
  case (Inr v)
  obtain ok verr where v: "v = (ok, verr)" by (cases v)
  show ?thesis
  proof (cases ok)
    case False
    with Inr v that(2) show ?thesis by simp
  next
    case True
    note ok = this
    show ?thesis
    proof (cases "check_permissions reg n ctx")
      case False
      with Inr v ok that(3) show ?thesis by simp
    next
      case True
      note perm = this
      show ?thesis
      proof (cases "fst (wait_for (execute_tool_impl reg n inp ctx) (max_execution_time ctx) e [])")
        case (Inr d)
        with \<open>validate_tool_input reg n inp = Inr v\<close> v ok perm that(4) show ?thesis by simp
      next
        case (Inl ex)
        note w = this
        show ?thesis
        proof (cases "ex = TimeoutError")
          case True
          with \<open>validate_tool_input reg n inp = Inr v\<close> v ok perm w that(5) that(6)
          show ?thesis by (cases "format_int (max_execution_time ctx)") simp_all
        next
          case False
          with \<open>validate_tool_input reg n inp = Inr v\<close> v ok perm w that(7) that(8)
          show ?thesis by (cases "is_Exception ex") simp_all
        qed
      qed
    qed
  qed
qed

lemmas log_defs = decrement_follows_recording_def decrement_precedes_recording_def
  before_decrement_def from_decrement_def is_recording_def

section \<open>Validation, and the scenarios run\<close>

lemma validate_params_find:
  "validate_params ps inp =
     (case find (\<lambda>p. inp p = None) ps of
        None \<Rightarrow> (True, None)
      | Some p \<Rightarrow> (False, Some (''Missing required parameter: '' @ p)))"
  by (induction ps) simp_all

lemma find_missing:
  assumes "\<exists>p \<in> set ps. inp p = None"
  obtains p where "find (\<lambda>p. inp p = None) ps = Some p"
  using assms by (cases "find (\<lambda>p. inp p = None) ps") (auto simp: find_None_iff)

lemma validation_passes:
  assumes "map_sum id fst (validate_tool_input reg n inp) = Inr True"
  obtains verr where "validate_tool_input reg n inp = Inr (True, verr)"
  using assms by (cases "validate_tool_input reg n inp") auto

lemma run_echo:
  "execute_tool echo_registry ''echo'' [''message'' \<mapsto> PStr ''hi''] (scenario_context ''guest'') scenario_env log =
     (Inr \<lparr>status = SUCCESS, data = Some (PDict [(''echo'', PStr ''hi'')]), error = None,
            execution_time_ms = 3, token_usage = [],
            metadata = [(''tool_name'', PStr ''echo''), (''session_id'', PStr ''s1'')]\<rparr>,
      log @ [Gauge_inc ''echo'' ''acme'', Call_validate_tool_input ''echo'', Call_check_permissions ''echo'',
             Call_execute_tool_impl ''echo'', Gauge_dec ''echo'' ''acme'',
             Counter_inc ''echo'' ''success'' ''acme'', Observe ''echo'' ''acme'' 3])"
proof -
  have v: "validate_tool_input echo_registry ''echo'' [''message'' \<mapsto> PStr ''hi''] = Inr (True, None)"
    by (simp add: eval_defs scenario_defs)
  have p: "check_permissions echo_registry ''echo'' (scenario_context ''guest'')"
    by (simp add: eval_defs scenario_defs)
  have w: "fst (wait_for (execute_tool_impl echo_registry ''echo'' [''message'' \<mapsto> PStr ''hi''] (scenario_context ''guest''))
             (max_execution_time (scenario_context ''guest'')) scenario_env []) = Inr (PDict [(''echo'', PStr ''hi'')])"
    by (simp add: eval_defs scenario_defs)
  show ?thesis
    by (simp add: execute_tool_success [OF v p w]) (simp add: scenario_defs)
qed

lemma run_search_empty:
  "execute_tool search_registry ''search'' Map.empty (scenario_context tier) scenario_env log =
     (Inr \<lparr>status = VALIDATION_ERROR, data = None, error = Some ''Missing required parameter: query'',
            execution_time_ms = 3, token_usage = [], metadata = []\<rparr>,
      log @ [Gauge_inc ''search'' ''acme'', Call_validate_tool_input ''search'',
             Counter_inc ''search'' ''validation_error'' ''acme'', Observe ''search'' ''acme'' 3,
             Gauge_dec ''search'' ''acme''])"
proof -
  have v: "validate_tool_input search_registry ''search'' Map.empty = Inr (False, Some ''Missing required parameter: query'')"
    by (simp add: eval_defs scenario_defs)
  show ?thesis
    by (simp add: execute_tool_invalid [OF v]) (simp add: scenario_defs)
qed

lemma run_search_guest:
  "execute_tool search_registry ''search'' [''query'' \<mapsto> PStr ''owls''] (scenario_context ''guest'') scenario_env log =
     (Inr \<lparr>status = PERMISSION_DENIED, data = None,
            error = Some (''Insufficient permissions for tool '' @ [CHR 0x27] @ ''search'' @ [CHR 0x27]),
            execution_time_ms = 3, token_usage = [], metadata = []\<rparr>,
      log @ [Gauge_inc ''search'' ''acme'', Call_validate_tool_input ''search'', Call_check_permissions ''search'',
             Counter_inc ''search'' ''permission_denied'' ''acme'', Observe ''search'' ''acme'' 3,
             Gauge_dec ''search'' ''acme''])"
proof -
  have v: "validate_tool_input search_registry ''search'' [''query'' \<mapsto> PStr ''owls''] = Inr (True, None)"
    by (simp add: eval_defs scenario_defs)
  have p: "\<not> check_permissions search_registry ''search'' (scenario_context ''guest'')"
    by (simp add: eval_defs scenario_defs)
  show ?thesis
    by (simp add: execute_tool_denied [OF v p]) (simp add: scenario_defs)
qed


lemma run_purge_empty:
  "map_sum id status (fst (execute_tool admin_registry ''purge'' Map.empty (scenario_context ''admin'') scenario_env log))
     = Inr VALIDATION_ERROR"
proof -
  have v: "validate_tool_input admin_registry ''purge'' Map.empty = Inr (False, Some ''Missing required parameter: target'')"
    by (simp add: eval_defs scenario_defs)
  show ?thesis
    by (simp add: execute_tool_invalid [OF v])
qed

lemma run_purge_no_budget:
  "map_sum id status (fst (execute_tool admin_registry ''purge'' [''target'' \<mapsto> PStr ''cache'']
       ((scenario_context ''admin'')\<lparr>max_execution_time := 0\<rparr>) scenario_env log)) = Inr TIMEOUT"
proof -
  have v: "validate_tool_input admin_registry ''purge'' [''target'' \<mapsto> PStr ''cache''] = Inr (True, None)"
    by (simp add: eval_defs scenario_defs)
  have p: "check_permissions admin_registry ''purge'' ((scenario_context ''admin'')\<lparr>max_execution_time := 0\<rparr>)"
    by (simp add: eval_defs scenario_defs)
  have w: "fst (wait_for (execute_tool_impl admin_registry ''purge'' [''target'' \<mapsto> PStr ''cache''] ((scenario_context ''admin'')\<lparr>max_execution_time := 0\<rparr>))
             (max_execution_time ((scenario_context ''admin'')\<lparr>max_execution_time := 0\<rparr>)) scenario_env []) = Inl TimeoutError"
    by (simp add: eval_defs scenario_defs)
  have f: "format_int (max_execution_time ((scenario_context ''admin'')\<lparr>max_execution_time := 0\<rparr>)) = Inr ''0''"
    by (simp add: scenario_defs format_int_def str_int_def str_nat.simps int_max_str_digits_def digit_char_def)
  show ?thesis
    by (simp add: execute_tool_timeout [OF v p w f])
qed

lemma run_purge_huge_budget:
  "map_sum id (\<lambda>r. (status r, error r))
     (fst (execute_tool admin_registry ''purge'' [''target'' \<mapsto> PStr ''cache'']
        ((scenario_context ''admin'')\<lparr>max_execution_time := float_limit\<rparr>) scenario_env log))
     = Inr (FAILURE, Some ''int too large to convert to float'')"
proof -
  have v: "validate_tool_input admin_registry ''purge'' [''target'' \<mapsto> PStr ''cache''] = Inr (True, None)"
    by (simp add: eval_defs scenario_defs)
  have p: "check_permissions admin_registry ''purge'' ((scenario_context ''admin'')\<lparr>max_execution_time := float_limit\<rparr>)"
    by (simp add: eval_defs scenario_defs)
  have w: "fst (wait_for (execute_tool_impl admin_registry ''purge'' [''target'' \<mapsto> PStr ''cache''] ((scenario_context ''admin'')\<lparr>max_execution_time := float_limit\<rparr>))
             (max_execution_time ((scenario_context ''admin'')\<lparr>max_execution_time := float_limit\<rparr>)) scenario_env [])
           = Inl (OverflowError ''int too large to convert to float'')"
  proof -
    have "(0 :: int) < float_limit" by (simp add: float_limit_def)
    then show ?thesis by (simp add: wait_for_def raise_py_def)
  qed
  show ?thesis
    by (simp add: execute_tool_failure [OF v p w])
qed

lemma run_purge_cancelled:
  "fst (execute_tool admin_registry ''purge'' [''target'' \<mapsto> PStr ''cache'']
        (scenario_context ''admin'') (scenario_env\<lparr>cancelled := True\<rparr>) log) = Inl CancelledError"
proof -
  have v: "validate_tool_input admin_registry ''purge'' [''target'' \<mapsto> PStr ''cache''] = Inr (True, None)"
    by (simp add: eval_defs scenario_defs)
  have p: "check_permissions admin_registry ''purge'' (scenario_context ''admin'')"
    by (simp add: eval_defs scenario_defs)
  have w: "fst (wait_for (execute_tool_impl admin_registry ''purge'' [''target'' \<mapsto> PStr ''cache''] (scenario_context ''admin''))
             (max_execution_time (scenario_context ''admin'')) (scenario_env\<lparr>cancelled := True\<rparr>) [])
           = Inl CancelledError"
    by (simp add: wait_for_def raise_py_def float_limit_def scenario_context_def scenario_env_def)
  show ?thesis
    by (simp add: execute_tool_escaped [OF v p w])
qed

lemma run_blank:
  "execute_tool blank_registry ''blank'' [''message'' \<mapsto> PStr ''hi''] (scenario_context ''guest'') scenario_env log =
     (Inl (TypeError ([CHR 0x27] @ ''NoneType'' @ [CHR 0x27] @ '' object is not iterable'')),
      log @ [Gauge_inc ''blank'' ''acme'', Call_validate_tool_input ''blank'', Gauge_dec ''blank'' ''acme''])"
proof -
  have v: "validate_tool_input blank_registry ''blank'' [''message'' \<mapsto> PStr ''hi'']
      = Inl (TypeError ([CHR 0x27] @ ''NoneType'' @ [CHR 0x27] @ '' object is not iterable''))"
    by (simp add: validate_tool_input_def blank_registry_def blank_spec_def spec_get_def)
  show ?thesis
    by (simp add: execute_tool_raised [OF v]) (simp add: scenario_defs)
qed

section \<open>Permission tiers\<close>

text \<open>
  C1, as the specification states it: an unrecognized tier string on either side has
  rank 1. The code gives an unrecognized caller tier rank 0: a caller with the tier
  \<open>superuser\<close> is refused a tool that requires \<open>user\<close>, which rank 1 would be granted.
\<close>

theorem unrecognized_caller_tier_counterexample:
  "check_permissions search_registry ''search'' (scenario_context ''superuser'')
     \<noteq> (tier_rank_spec ''user'' \<le> tier_rank_spec ''superuser'')"
  by (simp add: eval_defs scenario_defs tier_rank_spec_def)

text \<open>
  C1, amended: for a registered tool, a caller whose tier string is unrecognized is
  treated as rank 0 (\<open>guest\<close>), so it is authorized exactly for the tools that require
  \<open>guest\<close>; a tool whose required tier is unrecognized requires rank 1 (\<open>user\<close>), so it
  is open exactly to callers of tier \<open>user\<close> or \<open>admin\<close>. In particular a caller with
  the tier \<open>superuser\<close> is denied a tool that requires \<open>admin\<close>.
\<close>

theorem check_permissions_unrecognized_tier:
  assumes "map_of reg n = Some spec"
  shows "(permission_level ctx \<notin> recognized_tiers \<longrightarrow>
            (check_permissions reg n ctx \<longleftrightarrow> spec_get (required_permission spec) ''user'' = ''guest''))
       \<and> (spec_get (required_permission spec) ''user'' \<notin> recognized_tiers \<longrightarrow>
            (check_permissions reg n ctx \<longleftrightarrow> permission_level ctx = ''user'' \<or> permission_level ctx = ''admin''))"
  using assms by (simp add: check_permissions_def Let_def rank_unrecognized rank_le_zero rank_ge_one)

theorem check_permissions_unrecognized_tier_witness:
  "map_of admin_registry ''purge'' = Some purge_spec
   \<and> permission_level (scenario_context ''superuser'') \<notin> recognized_tiers
   \<and> \<not> check_permissions admin_registry ''purge'' (scenario_context ''superuser'')
   \<and> map_of root_registry ''probe'' = Some probe_spec
   \<and> spec_get (required_permission probe_spec) ''user'' \<notin> recognized_tiers
   \<and> check_permissions root_registry ''probe'' (scenario_context ''user'')"
proof -
  have a: "map_of admin_registry ''purge'' = Some purge_spec"
    by (simp add: admin_registry_def)
  have r: "map_of root_registry ''probe'' = Some probe_spec"
    by (simp add: root_registry_def)
  show ?thesis
    using a r check_permissions_unrecognized_tier [OF a, of "scenario_context ''superuser''"]
      check_permissions_unrecognized_tier [OF r, of "scenario_context ''user''"]
    by (simp add: scenario_defs probe_spec_def recognized_tiers_def spec_get_def)
qed

section \<open>Order of the observability events\<close>

text \<open>
  C2, as stated: the gauge decrement follows the outcome recording on every exit path.
  On the success path of the echo scenario the decrement (in the \<open>finally\<close> block) comes
  before \<open>_record_execution\<close>, which is called after the \<open>try\<close> statement.
\<close>

theorem decrement_follows_recording_counterexample:
  "\<not> decrement_follows_recording
       (snd (execute_tool echo_registry ''echo'' [''message'' \<mapsto> PStr ''hi'']
               (scenario_context ''guest'') scenario_env []))"
  by (simp add: run_echo log_defs)

text \<open>
  C2, amended: in every call to \<open>execute_tool\<close>, whether it returns a result or an
  exception leaves it, the first two events are the gauge increment and then the
  validation, and the gauge is incremented once and decremented exactly once. On the
  validation and permission rejections the decrement follows the counter increment and
  the latency observation; on success, timeout and failure (an exception of the
  dispatched coroutine included) the decrement comes first and the recording follows
  it; when an exception leaves the call the decrement is its last event.
\<close>

theorem execute_tool_gauge_order:
  "\<exists>res evs. execute_tool reg n inp ctx e log = (res, log @ evs)
     \<and> take 2 evs = [Gauge_inc n (tenant_id ctx), Call_validate_tool_input n]
     \<and> filter is_gauge_inc evs = [Gauge_inc n (tenant_id ctx)]
     \<and> filter is_gauge_dec evs = [Gauge_dec n (tenant_id ctx)]
     \<and> (\<forall>r. res = Inr r \<and> (status r = VALIDATION_ERROR \<or> status r = PERMISSION_DENIED)
            \<longrightarrow> decrement_follows_recording evs)
     \<and> (\<forall>r. res = Inr r \<and> (status r = SUCCESS \<or> status r = TIMEOUT \<or> status r = FAILURE)
            \<longrightarrow> decrement_precedes_recording evs)
     \<and> (\<forall>ex. res = Inl ex \<longrightarrow> last evs = Gauge_dec n (tenant_id ctx))"
proof (cases rule: execute_tool_cases [where reg = reg and n = n and inp = inp and ctx = ctx and e = e])
  case (raised ex)
  show ?thesis by (simp add: execute_tool_raised [OF raised] log_defs)
next
  case (invalid verr)
  show ?thesis by (simp add: execute_tool_invalid [OF invalid] log_defs)
next
  case (denied verr)
  show ?thesis by (simp add: execute_tool_denied [OF denied] log_defs)
next
  case (success verr d)
  show ?thesis by (simp add: execute_tool_success [OF success] log_defs)
next
  case (timeout verr budget)
  show ?thesis by (simp add: execute_tool_timeout [OF timeout] log_defs)
next
  case (timeout_raised verr ex)
  show ?thesis by (simp add: execute_tool_timeout_raised [OF timeout_raised] log_defs)
next
  case (failure verr ex)
  show ?thesis by (simp add: execute_tool_failure [OF failure] log_defs)
next
  case (escaped verr ex)
  show ?thesis by (simp add: execute_tool_escaped [OF escaped] log_defs)
qed

theorem execute_tool_gauge_order_witness:
  "decrement_precedes_recording
     (snd (execute_tool echo_registry ''echo'' [''message'' \<mapsto> PStr ''hi''] (scenario_context ''guest'') scenario_env []))
   \<and> filter is_gauge_dec
     (snd (execute_tool echo_registry ''echo'' [''message'' \<mapsto> PStr ''hi''] (scenario_context ''guest'') scenario_env []))
       = [Gauge_dec ''echo'' ''acme'']
   \<and> decrement_follows_recording
     (snd (execute_tool search_registry ''search'' Map.empty (scenario_context ''user'') scenario_env []))
   \<and> filter is_gauge_dec
     (snd (execute_tool search_registry ''search'' Map.empty (scenario_context ''user'') scenario_env []))
       = [Gauge_dec ''search'' ''acme'']
   \<and> last (snd (execute_tool blank_registry ''blank'' [''message'' \<mapsto> PStr ''hi''] (scenario_context ''guest'') scenario_env []))
       = Gauge_dec ''blank'' ''acme''"
  using execute_tool_gauge_order [of echo_registry "''echo''" "[''message'' \<mapsto> PStr ''hi'']" "scenario_context ''guest''" scenario_env "[]"]
    execute_tool_gauge_order [of search_registry "''search''" Map.empty "scenario_context ''user''" scenario_env "[]"]
    execute_tool_gauge_order [of blank_registry "''blank''" "[''message'' \<mapsto> PStr ''hi'']" "scenario_context ''guest''" scenario_env "[]"]
  by (simp add: run_echo run_search_empty run_blank) (simp add: scenario_defs)

section \<open>Missing required parameters\<close>

text \<open>
  C3: for a tool in the registry and inputs that miss at least one of its required
  parameters, \<open>execute_tool\<close> returns \<open>validation_error\<close>, the message names the first
  missing parameter in the order of the \<open>required_params\<close> list, and
  \<open>_execute_tool_impl\<close> is never called.
\<close>

theorem missing_required_parameter_rejected:
  assumes "map_of reg n = Some spec"
    and "spec_get (required_params spec) (Names []) = Names params"
    and "\<exists>p \<in> set params. inp p = None"
  shows "\<exists>p evs. find (\<lambda>p. inp p = None) params = Some p
     \<and> execute_tool reg n inp ctx e log =
         (Inr \<lparr>status = VALIDATION_ERROR, data = None,
                error = Some (''Missing required parameter: '' @ p),
                execution_time_ms = elapsed_ms e, token_usage = [], metadata = []\<rparr>, log @ evs)
     \<and> filter is_impl_call evs = []"
proof -
  from assms(3) obtain p where p: "find (\<lambda>p. inp p = None) params = Some p"
    by (rule find_missing)
  with assms(1,2) have v: "validate_tool_input reg n inp = Inr (False, Some (''Missing required parameter: '' @ p))"
    by (simp add: validate_tool_input_def validate_params_find)
  show ?thesis
    using p by (simp add: execute_tool_invalid [OF v])
qed

theorem missing_required_parameter_rejected_witness:
  "map_of search_registry ''search'' = Some search_spec
   \<and> spec_get (required_params search_spec) (Names []) = Names [''query'']
   \<and> (\<exists>p. p \<in> set [''query''] \<and> Map.empty p = (None :: pyval option))
   \<and> fst (execute_tool search_registry ''search'' Map.empty (scenario_context ''user'') scenario_env []) =
       Inr \<lparr>status = VALIDATION_ERROR, data = None, error = Some ''Missing required parameter: query'',
              execution_time_ms = 3, token_usage = [], metadata = []\<rparr>
   \<and> filter is_impl_call (snd (execute_tool search_registry ''search'' Map.empty (scenario_context ''user'') scenario_env [])) = []"
proof -
  have a: "map_of search_registry ''search'' = Some search_spec"
    by (simp add: search_registry_def)
  have b: "spec_get (required_params search_spec) (Names []) = Names [''query'']"
    by (simp add: search_spec_def spec_get_def)
  have c: "\<exists>p \<in> set [''query'']. Map.empty p = (None :: pyval option)"
    by simp
  show ?thesis
    using a b missing_required_parameter_rejected [OF a b c, of "scenario_context ''user''" scenario_env "[]"]
    by (simp add: run_search_empty)
qed

section \<open>Authorization\<close>

text \<open>
  C4, as stated: every caller ranked strictly below the tool's required tier gets
  \<open>permission_denied\<close>. Validation runs first: a \<open>guest\<close> calling the \<open>search\<close> tool
  (which requires \<open>user\<close>) without the required \<open>query\<close> gets \<open>validation_error\<close>.
\<close>

theorem permission_before_validation_counterexample:
  "dict_get permission_levels (permission_level (scenario_context ''guest'')) 0
     < dict_get permission_levels (spec_get (required_permission search_spec) ''user'') 1
   \<and> map_of search_registry ''search'' = Some search_spec
   \<and> map_sum id status
        (fst (execute_tool search_registry ''search'' Map.empty (scenario_context ''guest'') scenario_env []))
       = Inr VALIDATION_ERROR"
  by (simp add: run_search_empty) (simp add: eval_defs scenario_defs)

text \<open>
  C4, amended: a tool absent from the registry is never authorized; the ranks are
  \<open>guest\<close> 0, \<open>user\<close> 1, \<open>admin\<close> 2 and no other tier has one; for a registered tool and
  recognized tiers on both sides, \<open>check_permissions\<close> succeeds exactly when the caller's
  rank is at least the required rank; and when the caller's rank is strictly below the
  required rank and the inputs pass validation, \<open>execute_tool\<close> returns
  \<open>permission_denied\<close> without calling \<open>_execute_tool_impl\<close>.
\<close>

theorem check_permissions_tier_order:
  "(map_of reg n = None \<longrightarrow> \<not> check_permissions reg n ctx)
   \<and> permission_levels ''guest'' = Some 0 \<and> permission_levels ''user'' = Some 1
   \<and> permission_levels ''admin'' = Some 2 \<and> dom permission_levels = recognized_tiers
   \<and> (map_of reg n = Some spec
        \<and> permission_levels (permission_level ctx) = Some caller_rank
        \<and> permission_levels (spec_get (required_permission spec) ''user'') = Some required_rank
      \<longrightarrow> (check_permissions reg n ctx \<longleftrightarrow> required_rank \<le> caller_rank))
   \<and> (map_of reg n = Some spec
        \<and> dict_get permission_levels (permission_level ctx) 0
            < dict_get permission_levels (spec_get (required_permission spec) ''user'') 1
        \<and> map_sum id fst (validate_tool_input reg n inp) = Inr True
      \<longrightarrow> (\<exists>r evs. execute_tool reg n inp ctx e log = (Inr r, log @ evs)
            \<and> status r = PERMISSION_DENIED \<and> filter is_impl_call evs = []))"
proof -
  have absent: "map_of reg n = None \<longrightarrow> \<not> check_permissions reg n ctx"
    by (simp add: check_permissions_def)
  have table: "permission_levels ''guest'' = Some 0 \<and> permission_levels ''user'' = Some 1
      \<and> permission_levels ''admin'' = Some 2 \<and> dom permission_levels = recognized_tiers"
    by (auto simp: permission_levels_def recognized_tiers_def)
  have order: "map_of reg n = Some spec
        \<and> permission_levels (permission_level ctx) = Some caller_rank
        \<and> permission_levels (spec_get (required_permission spec) ''user'') = Some required_rank
      \<longrightarrow> (check_permissions reg n ctx \<longleftrightarrow> required_rank \<le> caller_rank)"
    by (simp add: check_permissions_def dict_get_def Let_def)
  have denied: "map_of reg n = Some spec
        \<and> dict_get permission_levels (permission_level ctx) 0
            < dict_get permission_levels (spec_get (required_permission spec) ''user'') 1
        \<and> map_sum id fst (validate_tool_input reg n inp) = Inr True
      \<longrightarrow> (\<exists>r evs. execute_tool reg n inp ctx e log = (Inr r, log @ evs)
            \<and> status r = PERMISSION_DENIED \<and> filter is_impl_call evs = [])"
  proof (intro impI, elim conjE)
    assume s: "map_of reg n = Some spec"
      and lt: "dict_get permission_levels (permission_level ctx) 0
            < dict_get permission_levels (spec_get (required_permission spec) ''user'') 1"
      and ok: "map_sum id fst (validate_tool_input reg n inp) = Inr True"
    from ok obtain verr where v: "validate_tool_input reg n inp = Inr (True, verr)"
      by (rule validation_passes)
    from s lt have p: "\<not> check_permissions reg n ctx"
      by (simp add: check_permissions_def Let_def)
    show "\<exists>r evs. execute_tool reg n inp ctx e log = (Inr r, log @ evs)
            \<and> status r = PERMISSION_DENIED \<and> filter is_impl_call evs = []"
      by (simp add: execute_tool_denied [OF v p])
  qed
  from absent table order denied show ?thesis by blast
qed

theorem check_permissions_tier_order_witness:
  "map_of search_registry ''purge'' = None
   \<and> \<not> check_permissions search_registry ''purge'' (scenario_context ''admin'')
   \<and> map_of search_registry ''search'' = Some search_spec
   \<and> permission_levels (permission_level (scenario_context ''guest'')) = Some 0
   \<and> permission_levels (spec_get (required_permission search_spec) ''user'') = Some 1
   \<and> \<not> check_permissions search_registry ''search'' (scenario_context ''guest'')
   \<and> map_sum id fst (validate_tool_input search_registry ''search'' [''query'' \<mapsto> PStr ''owls'']) = Inr True
   \<and> map_sum id status
        (fst (execute_tool search_registry ''search'' [''query'' \<mapsto> PStr ''owls'']
                (scenario_context ''guest'') scenario_env [])) = Inr PERMISSION_DENIED
   \<and> filter is_impl_call
        (snd (execute_tool search_registry ''search'' [''query'' \<mapsto> PStr ''owls'']
                (scenario_context ''guest'') scenario_env [])) = []"
  using check_permissions_tier_order [of search_registry "''purge''" "scenario_context ''admin''"]
    check_permissions_tier_order [of search_registry "''search''" "scenario_context ''guest''"
      search_spec 0 1 "[''query'' \<mapsto> PStr ''owls'']" scenario_env "[]"]
  by (simp add: run_search_guest) (simp add: eval_defs scenario_defs)

section \<open>The error boundary\<close>




section \<open>One recording per call\<close>

text \<open>
  C6, as stated: every call emits one counter increment and one latency observation.
  The call on the entry \<open>blank\<close> ends with the \<open>TypeError\<close> of \<open>validate_tool_input\<close>
  and emits neither: only \<open>finally\<close> runs, and \<open>_record_execution\<close> is not in it.
\<close>

theorem execute_tool_unrecorded_counterexample:
  "filter is_counter_inc
     (snd (execute_tool blank_registry ''blank'' [''message'' \<mapsto> PStr ''hi''] (scenario_context ''guest'') scenario_env []))
     = []
   \<and> filter is_observe
     (snd (execute_tool blank_registry ''blank'' [''message'' \<mapsto> PStr ''hi''] (scenario_context ''guest'') scenario_env []))
     = []"
  by (simp add: run_blank)

text \<open>
  C6, amended: every call to \<open>execute_tool\<close> that returns a result, whichever of the
  five outcomes it is, emits exactly one counter increment, labelled with the tool name,
  the status of the returned result and the tenant, and exactly one latency observation,
  labelled with the tool name and the tenant and carrying the result's
  \<open>execution_time_ms\<close>.
\<close>

theorem execute_tool_records_once:
  assumes "execute_tool reg n inp ctx e log = (Inr r, log')"
  shows "\<exists>evs. log' = log @ evs
     \<and> filter is_counter_inc evs = [Counter_inc n (status_value (status r)) (tenant_id ctx)]
     \<and> filter is_observe evs = [Observe n (tenant_id ctx) (execution_time_ms r)]"
proof (cases rule: execute_tool_cases [where reg = reg and n = n and inp = inp and ctx = ctx and e = e])
  case (raised ex)
  with assms show ?thesis by (simp add: execute_tool_raised [OF raised])
next
  case (invalid verr)
  with assms show ?thesis by (auto simp: execute_tool_invalid [OF invalid])
next
  case (denied verr)
  with assms show ?thesis by (auto simp: execute_tool_denied [OF denied])
next
  case (success verr d)
  with assms show ?thesis by (auto simp: execute_tool_success [OF success])
next
  case (timeout verr budget)
  with assms show ?thesis by (auto simp: execute_tool_timeout [OF timeout])
next
  case (timeout_raised verr ex)
  with assms show ?thesis by (simp add: execute_tool_timeout_raised [OF timeout_raised])
next
  case (failure verr ex)
  with assms show ?thesis by (auto simp: execute_tool_failure [OF failure])
next
  case (escaped verr ex)
  with assms show ?thesis by (simp add: execute_tool_escaped [OF escaped])
qed

theorem execute_tool_records_once_witness:
  "fst (execute_tool search_registry ''search'' [''query'' \<mapsto> PStr ''owls''] (scenario_context ''guest'') scenario_env [])
     = Inr \<lparr>status = PERMISSION_DENIED, data = None,
            error = Some (''Insufficient permissions for tool '' @ [CHR 0x27] @ ''search'' @ [CHR 0x27]),
            execution_time_ms = 3, token_usage = [], metadata = []\<rparr>
   \<and> filter is_counter_inc
     (snd (execute_tool search_registry ''search'' [''query'' \<mapsto> PStr ''owls''] (scenario_context ''guest'') scenario_env []))
     = [Counter_inc ''search'' ''permission_denied'' ''acme'']
   \<and> filter is_observe
     (snd (execute_tool search_registry ''search'' [''query'' \<mapsto> PStr ''owls''] (scenario_context ''guest'') scenario_env []))
     = [Observe ''search'' ''acme'' 3]"
  using execute_tool_records_once [OF run_search_guest [of "[]"]]
  by (simp add: run_search_guest)

section \<open>The echo scenario\<close>

text \<open>
  C7: with a registry whose tool \<open>echo\<close> has type \<open>echo\<close>, no required parameters and
  required permission \<open>guest\<close>, and a caller context of tier \<open>guest\<close>, the call
  \<open>execute_tool("echo", {"message": "hi"}, ctx)\<close>, run to its end, returns status
  \<open>success\<close>, data \<open>{"echo": "hi"}\<close> and a metadata mapping with the tool name and the
  session id. The scenario names the tier only; the context is otherwise any that
  \<open>asyncio.wait_for\<close> can schedule, its budget positive and below \<open>float_limit\<close>, as the
  default of 30 seconds is.
\<close>

theorem echo_scenario:
  assumes "map_of reg ''echo'' = Some spec"
    and "tool_type spec = Some ''echo''"
    and "spec_get (required_params spec) (Names []) = Names []"
    and "required_permission spec = Some ''guest''"
    and "permission_level ctx = ''guest''"
    and "0 < max_execution_time ctx" and "max_execution_time ctx < float_limit"
    and "\<not> cancelled e"
  shows "execute_tool reg ''echo'' [''message'' \<mapsto> PStr ''hi''] ctx e log =
     (Inr \<lparr>status = SUCCESS, data = Some (PDict [(''echo'', PStr ''hi'')]), error = None,
            execution_time_ms = elapsed_ms e, token_usage = [],
            metadata = [(''tool_name'', PStr ''echo''), (''session_id'', PStr (session_id ctx))]\<rparr>,
      log @ [Gauge_inc ''echo'' (tenant_id ctx), Call_validate_tool_input ''echo'',
             Call_check_permissions ''echo'', Call_execute_tool_impl ''echo'',
             Gauge_dec ''echo'' (tenant_id ctx),
             Counter_inc ''echo'' ''success'' (tenant_id ctx),
             Observe ''echo'' (tenant_id ctx) (elapsed_ms e)])"
proof -
  have v: "validate_tool_input reg ''echo'' [''message'' \<mapsto> PStr ''hi''] = Inr (True, None)"
    using assms(1,3) by (simp add: validate_tool_input_def)
  have p: "check_permissions reg ''echo'' ctx"
    using assms(1,4,5) by (simp add: check_permissions_def permission_levels_def dict_get_def spec_get_def)
  have w: "fst (wait_for (execute_tool_impl reg ''echo'' [''message'' \<mapsto> PStr ''hi''] ctx)
             (max_execution_time ctx) e []) = Inr (PDict [(''echo'', PStr ''hi'')])"
    using assms(1,2,6,7,8)
    by (simp add: wait_for_def execute_tool_impl_def eval_py_def return_py_def spec_get_def dict_get_def)
  show ?thesis
    by (rule execute_tool_success [OF v p w])
qed

theorem echo_scenario_witness:
  "map_of echo_registry ''echo'' = Some echo_spec
   \<and> tool_type echo_spec = Some ''echo''
   \<and> spec_get (required_params echo_spec) (Names []) = Names []
   \<and> required_permission echo_spec = Some ''guest''
   \<and> permission_level (scenario_context ''guest'') = ''guest''
   \<and> max_execution_time (scenario_context ''guest'') = 30
   \<and> 0 < max_execution_time (scenario_context ''guest'')
   \<and> max_execution_time (scenario_context ''guest'') < float_limit
   \<and> \<not> cancelled scenario_env
   \<and> fst (execute_tool echo_registry ''echo'' [''message'' \<mapsto> PStr ''hi''] (scenario_context ''guest'') scenario_env []) =
       Inr \<lparr>status = SUCCESS, data = Some (PDict [(''echo'', PStr ''hi'')]), error = None,
            execution_time_ms = 3, token_usage = [],
            metadata = [(''tool_name'', PStr ''echo''), (''session_id'', PStr ''s1'')]\<rparr>"
proof -
  have a: "map_of echo_registry ''echo'' = Some echo_spec" by (simp add: echo_registry_def)
  have b: "tool_type echo_spec = Some ''echo''" by (simp add: echo_spec_def)
  have c: "spec_get (required_params echo_spec) (Names []) = Names []"
    by (simp add: echo_spec_def spec_get_def)
  have d: "required_permission echo_spec = Some ''guest''" by (simp add: echo_spec_def)
  have f: "permission_level (scenario_context ''guest'') = ''guest''" by (simp add: scenario_context_def)
  have g: "0 < max_execution_time (scenario_context ''guest'')" by (simp add: scenario_context_def)
  have h: "max_execution_time (scenario_context ''guest'') < float_limit"
    by (simp add: scenario_context_def float_limit_def)
  have i: "\<not> cancelled scenario_env" by (simp add: scenario_env_def)
  show ?thesis
    using a b c d f g h i echo_scenario [OF a b c d f g h i, of "[]"]
    by (simp add: scenario_context_def scenario_env_def)
qed

section \<open>Unrecognized tool types\<close>

text \<open>
  C8, as stated, for the registered tool \<open>purge\<close> of unrecognized type and an authorized
  caller: the status is \<open>validation_error\<close> when the required parameter is missing and
  \<open>timeout\<close> when \<open>max_execution_time\<close> is 0; with the budget \<open>float_limit\<close> the status is
  \<open>failure\<close> but the message is that of the \<open>OverflowError\<close>; and when the call is
  cancelled at its \<open>await\<close>, \<open>CancelledError\<close> leaves \<open>execute_tool\<close>.
\<close>

theorem unrecognized_type_counterexample:
  "map_of admin_registry ''purge'' = Some purge_spec
   \<and> spec_get (tool_type purge_spec) ''unknown'' \<notin> recognized_types
   \<and> check_permissions admin_registry ''purge'' (scenario_context ''admin'')
   \<and> map_sum id status
        (fst (execute_tool admin_registry ''purge'' Map.empty (scenario_context ''admin'') scenario_env []))
       = Inr VALIDATION_ERROR
   \<and> map_sum id status
        (fst (execute_tool admin_registry ''purge'' [''target'' \<mapsto> PStr ''cache'']
                ((scenario_context ''admin'')\<lparr>max_execution_time := 0\<rparr>) scenario_env []))
       = Inr TIMEOUT
   \<and> map_sum id (\<lambda>r. (status r, error r))
        (fst (execute_tool admin_registry ''purge'' [''target'' \<mapsto> PStr ''cache'']
                ((scenario_context ''admin'')\<lparr>max_execution_time := float_limit\<rparr>) scenario_env []))
       = Inr (FAILURE, Some ''int too large to convert to float'')
   \<and> fst (execute_tool admin_registry ''purge'' [''target'' \<mapsto> PStr ''cache'']
            (scenario_context ''admin'') (scenario_env\<lparr>cancelled := True\<rparr>) [])
       = Inl CancelledError"
  by (simp add: run_purge_empty run_purge_no_budget run_purge_huge_budget run_purge_cancelled)
    (simp add: check_permissions_def permission_levels_def dict_get_def spec_get_def
       admin_registry_def purge_spec_def scenario_context_def recognized_types_def)

text \<open>
  C8, amended: for a registered tool whose declared type (\<open>unknown\<close> when absent) is not
  one of \<open>web_search\<close>, \<open>asr\<close>, \<open>tts\<close>, \<open>echo\<close>, inputs that pass validation, an authorized
  caller, a \<open>max_execution_time\<close> that is positive and below \<open>float_limit\<close>, and a call
  that is not cancelled, \<open>execute_tool\<close> returns status \<open>failure\<close> with the message that
  the type is not implemented.
\<close>

theorem unrecognized_type_fails:
  assumes "map_of reg n = Some spec"
    and "spec_get (tool_type spec) ''unknown'' \<notin> recognized_types"
    and "map_sum id fst (validate_tool_input reg n inp) = Inr True"
    and "check_permissions reg n ctx"
    and "0 < max_execution_time ctx" and "max_execution_time ctx < float_limit"
    and "\<not> cancelled e"
  shows "execute_tool reg n inp ctx e log =
     (Inr \<lparr>status = FAILURE, data = None,
            error = Some (''Tool type '' @ [CHR 0x27] @ spec_get (tool_type spec) ''unknown'' @ [CHR 0x27]
                           @ '' not implemented''),
            execution_time_ms = elapsed_ms e, token_usage = [], metadata = []\<rparr>,
      log @ [Gauge_inc n (tenant_id ctx), Call_validate_tool_input n, Call_check_permissions n,
             Call_execute_tool_impl n, Gauge_dec n (tenant_id ctx),
             Counter_inc n ''failure'' (tenant_id ctx),
             Observe n (tenant_id ctx) (elapsed_ms e)])"
proof -
  from assms(3) obtain verr where v: "validate_tool_input reg n inp = Inr (True, verr)"
    by (rule validation_passes)
  have w: "fst (wait_for (execute_tool_impl reg n inp ctx) (max_execution_time ctx) e []) =
      Inl (NotImplementedError (''Tool type '' @ [CHR 0x27] @ spec_get (tool_type spec) ''unknown''
             @ [CHR 0x27] @ '' not implemented''))"
    using assms(1,2,5,6,7)
    by (simp add: execute_tool_impl_def wait_for_def raise_py_def eval_py_def recognized_types_def Let_def)
  show ?thesis
    using execute_tool_failure [OF v assms(4) w] by simp
qed

theorem unrecognized_type_fails_witness:
  "map_of admin_registry ''purge'' = Some purge_spec
   \<and> spec_get (tool_type purge_spec) ''unknown'' \<notin> recognized_types
   \<and> map_sum id fst (validate_tool_input admin_registry ''purge'' [''target'' \<mapsto> PStr ''cache'']) = Inr True
   \<and> check_permissions admin_registry ''purge'' (scenario_context ''admin'')
   \<and> 0 < max_execution_time (scenario_context ''admin'')
   \<and> max_execution_time (scenario_context ''admin'') < float_limit
   \<and> \<not> cancelled scenario_env
   \<and> fst (execute_tool admin_registry ''purge'' [''target'' \<mapsto> PStr ''cache''] (scenario_context ''admin'') scenario_env []) =
       Inr \<lparr>status = FAILURE, data = None,
              error = Some (''Tool type '' @ [CHR 0x27] @ ''purge'' @ [CHR 0x27] @ '' not implemented''),
              execution_time_ms = 3, token_usage = [], metadata = []\<rparr>"
proof -
  have a: "map_of admin_registry ''purge'' = Some purge_spec" by (simp add: admin_registry_def)
  have b: "spec_get (tool_type purge_spec) ''unknown'' \<notin> recognized_types"
    by (simp add: purge_spec_def spec_get_def recognized_types_def)
  have c: "map_sum id fst (validate_tool_input admin_registry ''purge'' [''target'' \<mapsto> PStr ''cache'']) = Inr True"
    by (simp add: validate_tool_input_def spec_get_def admin_registry_def purge_spec_def)
  have d: "check_permissions admin_registry ''purge'' (scenario_context ''admin'')"
    by (simp add: check_permissions_def permission_levels_def dict_get_def spec_get_def
        admin_registry_def purge_spec_def scenario_context_def)
  have f: "0 < max_execution_time (scenario_context ''admin'')" by (simp add: scenario_context_def)
  have g: "max_execution_time (scenario_context ''admin'') < float_limit"
    by (simp add: scenario_context_def float_limit_def)
  have h: "\<not> cancelled scenario_env" by (simp add: scenario_env_def)
  show ?thesis
    using a b c d f g h unrecognized_type_fails [OF a b c d f g h, of "[]"]
    by (simp add: purge_spec_def spec_get_def scenario_context_def scenario_env_def)
qed

section \<open>Listing the available tools\<close>



lemma available_loop_mono:
  assumes "\<And>n. check_permissions all_tools n ctx2 \<Longrightarrow> check_permissions all_tools n ctx1"
  shows "set (available_loop all_tools reg ctx2) \<subseteq> set (available_loop all_tools reg ctx1)"
  using assms by (induction all_tools reg ctx2 rule: available_loop.induct) auto



text \<open>
  C10: for two contexts that differ only in the permission level, both levels among
  \<open>guest\<close>, \<open>user\<close>, \<open>admin\<close> and the first ranked at least as high as the second, every
  tool that \<open>check_permissions\<close> grants to the second is granted to the first, and every
  summary that \<open>get_available_tools\<close> lists for the second is listed for the first.
\<close>

theorem check_permissions_monotone:
  assumes "ctx1 = ctx2\<lparr>permission_level := level1\<rparr>"
    and "permission_levels level1 = Some rank1"
    and "permission_levels (permission_level ctx2) = Some rank2"
    and "rank2 \<le> rank1"
  shows "(check_permissions reg n ctx2 \<longrightarrow> check_permissions reg n ctx1)
     \<and> set (get_available_tools reg ctx2) \<subseteq> set (get_available_tools reg ctx1)"
proof -
  have mono: "check_permissions reg m ctx2 \<Longrightarrow> check_permissions reg m ctx1" for m
    using assms by (auto simp: check_permissions_def dict_get_def Let_def split: option.splits)
  then show ?thesis
    by (simp add: get_available_tools_def available_loop_mono)
qed

theorem check_permissions_monotone_witness:
  "scenario_context ''admin'' = (scenario_context ''user'')\<lparr>permission_level := ''admin''\<rparr>
   \<and> permission_levels ''admin'' = Some 2
   \<and> permission_levels (permission_level (scenario_context ''user'')) = Some 1
   \<and> (1 :: int) \<le> 2
   \<and> check_permissions mixed_registry ''search'' (scenario_context ''user'')
   \<and> check_permissions mixed_registry ''search'' (scenario_context ''admin'')
   \<and> set (get_available_tools mixed_registry (scenario_context ''user''))
       \<subseteq> set (get_available_tools mixed_registry (scenario_context ''admin''))"
proof -
  have a: "scenario_context ''admin'' = (scenario_context ''user'')\<lparr>permission_level := ''admin''\<rparr>"
    by (simp add: scenario_context_def)
  have b: "permission_levels ''admin'' = Some 2" by (simp add: permission_levels_def)
  have c: "permission_levels (permission_level (scenario_context ''user'')) = Some 1"
    by (simp add: permission_levels_def scenario_context_def)
  have d: "(1 :: int) \<le> 2" by simp
  have p: "check_permissions mixed_registry ''search'' (scenario_context ''user'')"
    by (simp add: eval_defs scenario_defs mixed_registry_def)
  show ?thesis
    using a b c p check_permissions_monotone [OF a b c d, of mixed_registry "''search''"]
    by simp
qed

end
